theory Spec2Isabelle
  imports Main
begin

section \<open>The debugger session core of nuclide-debugger-cli (Debugger.js)\<close>

text \<open>
  A shallow embedding of \<^verbatim>\<open>modules/nuclide-debugger-cli/lib/Debugger.js\<close>.
  The class \<^verbatim>\<open>Debugger\<close> becomes a record of its fields; every method becomes a
  function from the record to an outcome and the updated record. The collaborators the
  class talks to are made explicit:
  \<^item> the console (\<^verbatim>\<open>ConsoleIO\<close>) is the flag \<open>inputEnabled\<close> together with
    the calls recorded in \<open>effects\<close>;
  \<^item> the debug adapter (\<^verbatim>\<open>VsDebugSession\<close>) is a record of answers, one per
    request kind, each either a rejection or a response body; every request sent is
    recorded in \<open>effects\<close>, in order;
  \<^item> \<^verbatim>\<open>process.exit\<close> is the outcome \<open>Exit\<close>, which no \<^verbatim>\<open>catch\<close> intercepts.

  An \<^verbatim>\<open>await\<close> is modelled by running the awaited call to its end: a method is
  one transition, and no event is delivered between its first and its last statement.
\<close>

subsection \<open>Outcomes and errors\<close>

datatype error = Error string | TypeError string | AssertionError string

fun message :: "error \<Rightarrow> string" where
  "message (Error m) = m"
| "message (TypeError m) = m"
| "message (AssertionError m) = m"

datatype 'a outcome = Ok 'a | Throw error | Exit int

definition bind :: "('s \<Rightarrow> 'a outcome \<times> 's) \<Rightarrow> ('a \<Rightarrow> 's \<Rightarrow> 'b outcome \<times> 's) \<Rightarrow> 's \<Rightarrow> 'b outcome \<times> 's" where
  "bind m k s =
     (case m s of
        (Ok a, s') \<Rightarrow> k a s'
      | (Throw e, s') \<Rightarrow> (Throw e, s')
      | (Exit n, s') \<Rightarrow> (Exit n, s'))"

text \<open>\<^verbatim>\<open>try { m } catch (error) { h(error) }\<close>: only a thrown error reaches the handler.\<close>

definition try_catch :: "('s \<Rightarrow> 'a outcome \<times> 's) \<Rightarrow> (error \<Rightarrow> 's \<Rightarrow> 'a outcome \<times> 's) \<Rightarrow> 's \<Rightarrow> 'a outcome \<times> 's" where
  "try_catch m h s =
     (case m s of
        (Throw e, s') \<Rightarrow> h e s'
      | r \<Rightarrow> r)"

text \<open>
  A call of an \<^verbatim>\<open>async\<close> method whose promise is dropped (\<^verbatim>\<open>this.relaunch();\<close>):
  the caller goes on normally whatever the promise rejects with; an exit of the process
  still ends everything.
\<close>

definition not_awaited :: "('s \<Rightarrow> 'a outcome \<times> 's) \<Rightarrow> 's \<Rightarrow> unit outcome \<times> 's" where
  "not_awaited m s =
     (case m s of
        (Exit n, s') \<Rightarrow> (Exit n, s')
      | (_, s') \<Rightarrow> (Ok (), s'))"

subsection \<open>Protocol data (vscode-debugprotocol)\<close>

datatype SessionState = INITIALIZING | CONFIGURING | RUNNING | STOPPED | TERMINATED

record Capabilities =
  supportsConfigurationDoneRequest :: bool
  supportsFunctionBreakpoints :: bool
  supportsReadyForEvaluationsEvent :: bool

definition noCapabilities :: Capabilities where
  "noCapabilities =
     \<lparr>supportsConfigurationDoneRequest = False, supportsFunctionBreakpoints = False,
      supportsReadyForEvaluationsEvent = False\<rparr>"

record Source =
  sourceReference :: "int option"
  source_path :: "string option"
  source_name :: "string option"

record StackFrame =
  frame_id :: int
  frame_line :: int
  frame_source :: "Source option"

text \<open>A breakpoint as the adapter returns it (\<^verbatim>\<open>DebugProtocol.Breakpoint\<close>).\<close>

record RemoteBreakpoint =
  remote_id :: "int option"
  remote_verified :: "bool option"
  remote_message :: "string option"
  remote_source :: "Source option"
  remote_line :: "int option"

datatype request =
    ReqInitialize
  | ReqDisconnect
  | ReqLaunch string
  | ReqAttach string
  | ReqSetBreakpoints string "int option list"
  | ReqSetFunctionBreakpoints "string option list"
  | ReqSetExceptionBreakpoints
  | ReqConfigurationDone
  | ReqThreads
  | ReqStackTrace int int
  | ReqContinue int
  | ReqStepIn int
  | ReqNext int
  | ReqPause int
  | ReqEvaluate string string "int option"
  | ReqSource int

datatype effect =
    StartInput
  | StopInput
  | Output string
  | OutputLine string
  | StderrWrite string
  | Request request

text \<open>
  What surrounds the debugger. First what the adapter answers through
  \<^verbatim>\<open>VsDebugSession\<close>, by request: \<open>Inl\<close> is a rejected promise, \<open>Inr\<close> the
  body of the response. The body of \<^verbatim>\<open>initialize\<close> may be missing (\<open>None\<close>), and
  so may the \<^verbatim>\<open>threads\<close> array of a \<^verbatim>\<open>threads\<close> response. Then the local file
  system (\<open>readFile\<close>, \<open>None\<close> when the file cannot be read) and the last component of
  a resolved path as \<^verbatim>\<open>nuclideUri\<close> computes it (\<open>baseName\<close>).
\<close>

record Environment =
  initialize_response :: "error + Capabilities option"
  disconnect_response :: "error + unit"
  launch_response :: "string \<Rightarrow> error + unit"
  attach_response :: "string \<Rightarrow> error + unit"
  setBreakpoints_response :: "string \<Rightarrow> int option list \<Rightarrow> error + RemoteBreakpoint list"
  setFunctionBreakpoints_response :: "string option list \<Rightarrow> error + RemoteBreakpoint list"
  setExceptionBreakpoints_response :: "error + unit"
  configurationDone_response :: "error + unit"
  threads_response :: "error + (int \<times> string) list option"
  stackTrace_response :: "int \<Rightarrow> int \<Rightarrow> error + StackFrame list"
  continue_response :: "int \<Rightarrow> error + unit"
  stepIn_response :: "int \<Rightarrow> error + unit"
  next_response :: "int \<Rightarrow> error + unit"
  pause_response :: "int \<Rightarrow> error + unit"
  evaluate_response :: "string \<Rightarrow> string \<Rightarrow> int option \<Rightarrow> error + string"
  source_response :: "int \<Rightarrow> error + string"
  readFile :: "string \<Rightarrow> string option"
  baseName :: "string \<Rightarrow> string"

subsection \<open>Collaborators whose files are not part of the sources\<close>

text \<open>
  \<^verbatim>\<open>ThreadCollection.js\<close>, \<^verbatim>\<open>Thread.js\<close>, \<^verbatim>\<open>Breakpoint.js\<close>,
  \<^verbatim>\<open>BreakpointCollection.js\<close>, \<^verbatim>\<open>SourceFileCache.js\<close> and \<^verbatim>\<open>ConsoleIO.js\<close>
  are imported by Debugger.js but are not among the source files. Their data and
  operations are written from the specification's sections 3 and 4.1 to 4.3.
\<close>

text \<open>Modelled from the spec: Thread.js, \<open>{ id, name, running, selectedFrame }\<close>;
  a thread is created running with frame 0 selected.\<close>

record Thread =
  thread_id :: int
  thread_name :: string
  running :: bool
  selectedStackFrame :: nat

definition newThread :: "int \<Rightarrow> string \<Rightarrow> Thread" where
  "newThread i n = \<lparr>thread_id = i, thread_name = n, running = True, selectedStackFrame = 0\<rparr>"

definition clearSelectedStackFrame :: "Thread \<Rightarrow> Thread" where
  "clearSelectedStackFrame t = t\<lparr>selectedStackFrame := 0\<rparr>"

text \<open>Modelled from the spec: ThreadCollection.js, the live threads and the focus thread.\<close>

record ThreadCollection =
  allThreads :: "Thread list"
  focusThreadId :: "int option"

definition newThreadCollection :: ThreadCollection where
  "newThreadCollection = \<lparr>allThreads = [], focusThreadId = None\<rparr>"

definition getThreadById :: "ThreadCollection \<Rightarrow> int \<Rightarrow> Thread option" where
  "getThreadById c i = find (\<lambda>t. thread_id t = i) (allThreads c)"

definition focusThread :: "ThreadCollection \<Rightarrow> Thread option" where
  "focusThread c = (case focusThreadId c of None \<Rightarrow> None | Some i \<Rightarrow> getThreadById c i)"

definition allThreadsRunning :: "ThreadCollection \<Rightarrow> bool" where
  "allThreadsRunning c = list_all running (allThreads c)"

definition updateThread :: "int \<Rightarrow> (Thread \<Rightarrow> Thread) \<Rightarrow> ThreadCollection \<Rightarrow> ThreadCollection" where
  "updateThread i f c =
     c\<lparr>allThreads := map (\<lambda>t. if thread_id t = i then f t else t) (allThreads c)\<rparr>"

definition markThreadRunning :: "int \<Rightarrow> ThreadCollection \<Rightarrow> ThreadCollection" where
  "markThreadRunning i = updateThread i (\<lambda>t. t\<lparr>running := True\<rparr>)"

definition markThreadStopped :: "int \<Rightarrow> ThreadCollection \<Rightarrow> ThreadCollection" where
  "markThreadStopped i = updateThread i (\<lambda>t. t\<lparr>running := False\<rparr>)"

definition markAllThreadsRunning :: "ThreadCollection \<Rightarrow> ThreadCollection" where
  "markAllThreadsRunning c = c\<lparr>allThreads := map (\<lambda>t. t\<lparr>running := True\<rparr>) (allThreads c)\<rparr>"

definition markAllThreadsStopped :: "ThreadCollection \<Rightarrow> ThreadCollection" where
  "markAllThreadsStopped c = c\<lparr>allThreads := map (\<lambda>t. t\<lparr>running := False\<rparr>) (allThreads c)\<rparr>"

text \<open>\<open>firstStoppedThread\<close>: deterministic by ascending thread id.\<close>

definition firstStoppedThread :: "ThreadCollection \<Rightarrow> int option" where
  "firstStoppedThread c =
     (case filter (\<lambda>t. \<not> running t) (allThreads c) of
        [] \<Rightarrow> None
      | t # ts \<Rightarrow> Some (fold min (map thread_id ts) (thread_id t)))"

text \<open>\<open>setFocusThread(id)\<close> requires that the thread exists.\<close>

definition setFocusThread :: "int \<Rightarrow> ThreadCollection \<Rightarrow> error + ThreadCollection" where
  "setFocusThread i c =
     (case getThreadById c i of
        None \<Rightarrow> Inl (Error ''There is no such thread.'')
      | Some _ \<Rightarrow> Inr (c\<lparr>focusThreadId := Some i\<rparr>))"

definition addThread :: "Thread \<Rightarrow> ThreadCollection \<Rightarrow> ThreadCollection" where
  "addThread t c =
     c\<lparr>allThreads := filter (\<lambda>u. thread_id u \<noteq> thread_id t) (allThreads c) @ [t]\<rparr>"

definition removeThread :: "int \<Rightarrow> ThreadCollection \<Rightarrow> ThreadCollection" where
  "removeThread i c =
     c\<lparr>allThreads := filter (\<lambda>u. thread_id u \<noteq> i) (allThreads c),
       focusThreadId := (if focusThreadId c = Some i then None else focusThreadId c)\<rparr>"

text \<open>
  \<open>updateThreads(newList)\<close>: threads not in the new list are dropped, a thread already
  known keeps its state and takes the new name, the focus is kept if its thread is still
  there.
\<close>

definition updateThreads :: "Thread list \<Rightarrow> ThreadCollection \<Rightarrow> ThreadCollection" where
  "updateThreads new c =
     (let kept = map (\<lambda>n. case getThreadById c (thread_id n) of
                             None \<Rightarrow> n
                           | Some old \<Rightarrow> old\<lparr>thread_name := thread_name n\<rparr>) new
      in \<lparr>allThreads = kept,
          focusThreadId =
            (case focusThreadId c of
               None \<Rightarrow> None
             | Some i \<Rightarrow> if i \<in> set (map thread_id new) then Some i else None)\<rparr>)"

text \<open>Modelled from the spec: Breakpoint.js. A source breakpoint has a path and a line
  and no function; a function breakpoint has a function and, once the adapter resolved it,
  a path and a line.\<close>

record Breakpoint =
  bp_index :: nat
  bp_path :: "string option"
  bp_line :: "int option"
  bp_func :: "string option"
  bp_enabled :: bool
  bp_id :: "int option"
  bp_verified :: bool
  bp_message :: "string option"

text \<open>Modelled from the spec: BreakpointCollection.js. Indices are allocated from 1
  upwards and never reused; an operation on an index that is not there fails.\<close>

record BreakpointCollection =
  allBreakpoints :: "Breakpoint list"
  nextIndex :: nat

definition newBreakpointCollection :: BreakpointCollection where
  "newBreakpointCollection = \<lparr>allBreakpoints = [], nextIndex = 1\<rparr>"

definition addSourceBreakpoint :: "string \<Rightarrow> int \<Rightarrow> BreakpointCollection \<Rightarrow> nat \<times> BreakpointCollection" where
  "addSourceBreakpoint p l c =
     (nextIndex c,
      \<lparr>allBreakpoints = allBreakpoints c @
         [\<lparr>bp_index = nextIndex c, bp_path = Some p, bp_line = Some l, bp_func = None,
           bp_enabled = True, bp_id = None, bp_verified = False, bp_message = None\<rparr>],
       nextIndex = Suc (nextIndex c)\<rparr>)"

definition addFunctionBreakpoint :: "string \<Rightarrow> BreakpointCollection \<Rightarrow> nat \<times> BreakpointCollection" where
  "addFunctionBreakpoint f c =
     (nextIndex c,
      \<lparr>allBreakpoints = allBreakpoints c @
         [\<lparr>bp_index = nextIndex c, bp_path = None, bp_line = None, bp_func = Some f,
           bp_enabled = True, bp_id = None, bp_verified = False, bp_message = None\<rparr>],
       nextIndex = Suc (nextIndex c)\<rparr>)"

definition noSuchBreakpoint :: error where
  "noSuchBreakpoint = Error ''There is no such breakpoint.''"

definition getBreakpointByIndex :: "BreakpointCollection \<Rightarrow> nat \<Rightarrow> error + Breakpoint" where
  "getBreakpointByIndex c i =
     (case find (\<lambda>b. bp_index b = i) (allBreakpoints c) of
        None \<Rightarrow> Inl noSuchBreakpoint
      | Some b \<Rightarrow> Inr b)"

definition getBreakpointById :: "BreakpointCollection \<Rightarrow> int \<Rightarrow> error + Breakpoint" where
  "getBreakpointById c i =
     (case find (\<lambda>b. bp_id b = Some i) (allBreakpoints c) of
        None \<Rightarrow> Inl noSuchBreakpoint
      | Some b \<Rightarrow> Inr b)"

definition updateBreakpointAt :: "nat \<Rightarrow> (Breakpoint \<Rightarrow> Breakpoint) \<Rightarrow> BreakpointCollection \<Rightarrow> error + BreakpointCollection" where
  "updateBreakpointAt i f c =
     (case find (\<lambda>b. bp_index b = i) (allBreakpoints c) of
        None \<Rightarrow> Inl noSuchBreakpoint
      | Some _ \<Rightarrow>
          Inr (c\<lparr>allBreakpoints := map (\<lambda>b. if bp_index b = i then f b else b) (allBreakpoints c)\<rparr>))"

definition setBreakpointId :: "nat \<Rightarrow> int \<Rightarrow> BreakpointCollection \<Rightarrow> error + BreakpointCollection" where
  "setBreakpointId i n = updateBreakpointAt i (\<lambda>b. b\<lparr>bp_id := Some n\<rparr>)"

definition setBreakpointVerified :: "nat \<Rightarrow> bool \<Rightarrow> BreakpointCollection \<Rightarrow> error + BreakpointCollection" where
  "setBreakpointVerified i v = updateBreakpointAt i (\<lambda>b. b\<lparr>bp_verified := v\<rparr>)"

definition setPathAndFile :: "nat \<Rightarrow> string \<Rightarrow> int \<Rightarrow> BreakpointCollection \<Rightarrow> error + BreakpointCollection" where
  "setPathAndFile i p l = updateBreakpointAt i (\<lambda>b. b\<lparr>bp_path := Some p, bp_line := Some l\<rparr>)"

text \<open>\<^verbatim>\<open>breakpoint.setEnabled(e)\<close> on a breakpoint taken from the collection: the
  object is shared with the collection, so the collection's entry changes.\<close>

definition setEnabled :: "nat \<Rightarrow> bool \<Rightarrow> BreakpointCollection \<Rightarrow> BreakpointCollection" where
  "setEnabled i e c =
     c\<lparr>allBreakpoints := map (\<lambda>b. if bp_index b = i then b\<lparr>bp_enabled := e\<rparr> else b) (allBreakpoints c)\<rparr>"

definition getAllEnabledBreakpointsForSource :: "BreakpointCollection \<Rightarrow> string \<Rightarrow> Breakpoint list" where
  "getAllEnabledBreakpointsForSource c p =
     filter (\<lambda>b. bp_func b = None \<and> bp_path b = Some p \<and> bp_enabled b) (allBreakpoints c)"

definition getAllEnabledFunctionBreakpoints :: "BreakpointCollection \<Rightarrow> Breakpoint list" where
  "getAllEnabledFunctionBreakpoints c =
     filter (\<lambda>b. bp_func b \<noteq> None \<and> bp_enabled b) (allBreakpoints c)"

text \<open>The enabled source breakpoints grouped by path, paths in the order of their first
  breakpoint.\<close>

definition getAllEnabledBreakpointsByPath :: "BreakpointCollection \<Rightarrow> (string \<times> Breakpoint list) list" where
  "getAllEnabledBreakpointsByPath c =
     map (\<lambda>p. (p, getAllEnabledBreakpointsForSource c p))
       (remdups (List.map_filter (\<lambda>b. if bp_func b = None \<and> bp_enabled b then bp_path b else None)
          (allBreakpoints c)))"

definition getAllBreakpointPaths :: "BreakpointCollection \<Rightarrow> string list" where
  "getAllBreakpointPaths c = remdups (List.map_filter bp_path (allBreakpoints c))"

definition deleteBreakpoint_collection :: "nat \<Rightarrow> BreakpointCollection \<Rightarrow> error + BreakpointCollection" where
  "deleteBreakpoint_collection i c =
     (case find (\<lambda>b. bp_index b = i) (allBreakpoints c) of
        None \<Rightarrow> Inl noSuchBreakpoint
      | Some _ \<Rightarrow> Inr (c\<lparr>allBreakpoints := filter (\<lambda>b. bp_index b \<noteq> i) (allBreakpoints c)\<rparr>))"

definition deleteAllBreakpoints_collection :: "BreakpointCollection \<Rightarrow> BreakpointCollection" where
  "deleteAllBreakpoints_collection c = c\<lparr>allBreakpoints := []\<rparr>"

text \<open>Modelled from the spec: SourceFileCache.js. A key is a local path or a source
  reference; an entry, once populated, stays until \<open>flush\<close>. Content is split on line
  feeds and a trailing carriage return is stripped from every line.\<close>

datatype cache_key = ByPath string | ByReference int

type_synonym SourceFileCache = "(cache_key \<times> string list) list"

fun split_on :: "char \<Rightarrow> string \<Rightarrow> string list" where
  "split_on c [] = [[]]"
| "split_on c (x # xs) =
     (if x = c then [] # split_on c xs
      else (case split_on c xs of
              [] \<Rightarrow> [[x]]
            | p # ps \<Rightarrow> (x # p) # ps))"

definition strip_cr :: "string \<Rightarrow> string" where
  "strip_cr s = (if s \<noteq> [] \<and> last s = CHR 0x0D then butlast s else s)"

definition splitLines :: "string \<Rightarrow> string list" where
  "splitLines s = map strip_cr (split_on (CHR 0x0A) s)"

definition flush :: "SourceFileCache \<Rightarrow> SourceFileCache" where
  "flush c = []"

subsection \<open>The debugger\<close>

datatype action = launch_action | attach_action

record ParsedVSAdapter =
  adapter_type :: string
  adapter_action :: action
  launchArgs :: string
  attachArgs :: string
  transformLaunchArguments :: "string \<Rightarrow> string"
  transformAttachArguments :: "string \<Rightarrow> string"
  asyncStopThread :: "int option"

text \<open>
  The fields of \<^verbatim>\<open>class Debugger\<close>. \<open>debugSession\<close> tells whether
  \<^verbatim>\<open>_debugSession\<close> is set; \<open>inputEnabled\<close> and \<open>effects\<close> are the console and the
  wire as seen from outside.
\<close>

record Debugger =
  capabilities :: Capabilities
  debugSession :: bool
  activeThread :: "int option"
  threads :: ThreadCollection
  sourceFiles :: SourceFileCache
  state :: SessionState
  breakpoints :: BreakpointCollection
  adapter :: "ParsedVSAdapter option"
  attachMode :: bool
  readyForEvaluations :: bool
  muteOutputCategories :: "string list"
  attached :: bool
  configured :: bool
  stoppedAtBreakpointId :: "int option"
  inputEnabled :: bool
  effects :: "effect list"

definition newDebugger :: "string list \<Rightarrow> Debugger" where
  "newDebugger mute =
     \<lparr>capabilities = noCapabilities, debugSession = False, activeThread = None,
      threads = newThreadCollection, sourceFiles = [], state = INITIALIZING,
      breakpoints = newBreakpointCollection, adapter = None, attachMode = False,
      readyForEvaluations = False, muteOutputCategories = mute, attached = False,
      configured = False, stoppedAtBreakpointId = None, inputEnabled = False,
      effects = []\<rparr>"

text \<open>Modelled from the spec: ConsoleIO.js, \<open>startInput()\<close> enables console input and
  \<open>stopInput()\<close> disables it; \<open>output\<close> and \<open>outputLine\<close> print.\<close>

definition startInput :: "Debugger \<Rightarrow> Debugger" where
  "startInput d = d\<lparr>inputEnabled := True, effects := effects d @ [StartInput]\<rparr>"

definition stopInput :: "Debugger \<Rightarrow> Debugger" where
  "stopInput d = d\<lparr>inputEnabled := False, effects := effects d @ [StopInput]\<rparr>"

definition outputLine :: "string \<Rightarrow> Debugger \<Rightarrow> Debugger" where
  "outputLine t d = d\<lparr>effects := effects d @ [OutputLine t]\<rparr>"

definition output_text :: "string \<Rightarrow> Debugger \<Rightarrow> Debugger" where
  "output_text t d = d\<lparr>effects := effects d @ [Output t]\<rparr>"

definition stderr_write :: "string \<Rightarrow> Debugger \<Rightarrow> Debugger" where
  "stderr_write t d = d\<lparr>effects := effects d @ [StderrWrite t]\<rparr>"

text \<open>A request goes on the wire, then the adapter's answer resolves or rejects it.\<close>

definition send :: "request \<Rightarrow> error + 'a \<Rightarrow> Debugger \<Rightarrow> 'a outcome \<times> Debugger" where
  "send r answer d =
     (case answer of
        Inl e \<Rightarrow> (Throw e, d\<lparr>effects := effects d @ [Request r]\<rparr>)
      | Inr a \<Rightarrow> (Ok a, d\<lparr>effects := effects d @ [Request r]\<rparr>))"

definition lift :: "error + 'a \<Rightarrow> Debugger \<Rightarrow> 'a outcome \<times> Debugger" where
  "lift r d = (case r of Inl e \<Rightarrow> (Throw e, d) | Inr a \<Rightarrow> (Ok a, d))"

definition notYetRunning :: string where
  "notYetRunning = ''The program is not yet running (use '' @ [CHR 0x27] @ ''run'' @ [CHR 0x27] @ '' to start it).''"

definition ensureDebugSession :: "bool \<Rightarrow> Debugger \<Rightarrow> error + unit" where
  "ensureDebugSession allowBeforeLaunch d =
     (if \<not> debugSession d then Inl (Error ''There is no active debugging session.'')
      else if (state d = INITIALIZING \<or> state d = CONFIGURING) \<and> \<not> allowBeforeLaunch
           then Inl (Error notYetRunning)
      else Inr ())"

subsection \<open>Source listing\<close>

definition getSourceByReference :: "Environment \<Rightarrow> int \<Rightarrow> Debugger \<Rightarrow> string \<times> Debugger" where
  "getSourceByReference env ref d =
     (case ensureDebugSession False d of
        Inl err \<Rightarrow> (''Failed to retrieve source: '' @ message err, d)
      | Inr _ \<Rightarrow>
          (case source_response env ref of
             Inl err \<Rightarrow> (''Failed to retrieve source: '' @ message err,
                          d\<lparr>effects := effects d @ [Request (ReqSource ref)]\<rparr>)
           | Inr content \<Rightarrow> (content, d\<lparr>effects := effects d @ [Request (ReqSource ref)]\<rparr>)))"

definition getFileDataBySourceReference :: "Environment \<Rightarrow> int \<Rightarrow> Debugger \<Rightarrow> string list \<times> Debugger" where
  "getFileDataBySourceReference env ref d =
     (case map_of (sourceFiles d) (ByReference ref) of
        Some ls \<Rightarrow> (ls, d)
      | None \<Rightarrow>
          (case getSourceByReference env ref d of
             (content, d') \<Rightarrow>
               (splitLines content,
                d'\<lparr>sourceFiles := sourceFiles d' @ [(ByReference ref, splitLines content)]\<rparr>)))"

definition getFileDataByPath :: "Environment \<Rightarrow> string \<Rightarrow> Debugger \<Rightarrow> string list \<times> Debugger" where
  "getFileDataByPath env p d =
     (case map_of (sourceFiles d) (ByPath p) of
        Some ls \<Rightarrow> (ls, d)
      | None \<Rightarrow>
          (case readFile env p of
             None \<Rightarrow> ([], d)
           | Some content \<Rightarrow>
               (splitLines content,
                d\<lparr>sourceFiles := sourceFiles d @ [(ByPath p, splitLines content)]\<rparr>)))"

text \<open>\<^verbatim>\<open>Array.prototype.slice(begin, end)\<close>: a negative index counts from the end of
  the array, both are clamped to the array.\<close>

definition js_slice :: "'a list \<Rightarrow> int \<Rightarrow> int \<Rightarrow> 'a list" where
  "js_slice xs b e =
     (let n = int (length xs);
          k = (if b < 0 then max (n + b) 0 else min b n);
          final = (if e < 0 then max (n + e) 0 else min e n)
      in take (nat (final - k)) (drop (nat k) xs))"

text \<open>The lines \<^verbatim>\<open>getSourceLines\<close> reads before it slices: by source reference when it
  is there and not 0, else by path when there is one, else none.\<close>

definition sourceLinesOf :: "Environment \<Rightarrow> Source \<Rightarrow> Debugger \<Rightarrow> string list \<times> Debugger" where
  "sourceLinesOf env source d =
     (case sourceReference source of
        Some ref \<Rightarrow>
          (if ref \<noteq> 0 then getFileDataBySourceReference env ref d
           else (case source_path source of
                   Some p \<Rightarrow> getFileDataByPath env p d
                 | None \<Rightarrow> ([], d)))
      | None \<Rightarrow>
          (case source_path source of
             Some p \<Rightarrow> getFileDataByPath env p d
           | None \<Rightarrow> ([], d)))"

definition getSourceLines :: "Environment \<Rightarrow> Source \<Rightarrow> int \<Rightarrow> int \<Rightarrow> Debugger \<Rightarrow> string list outcome \<times> Debugger" where
  "getSourceLines env source start len d =
     (case sourceLinesOf env source d of
        (lines, d') \<Rightarrow>
          (if start > int (length lines) then (Ok [], d')
           else (Ok (js_slice lines (start - 1) (min (start + len - 1) (int (length lines)))), d')))"

subsection \<open>Numbers in messages\<close>

text \<open>A template literal prints a number in decimal.\<close>

fun string_of_nat :: "nat \<Rightarrow> string" where
  "string_of_nat n =
     (if n < 10 then [char_of (48 + n)]
      else string_of_nat (n div 10) @ [char_of (48 + n mod 10)])"

definition string_of_int :: "int \<Rightarrow> string" where
  "string_of_int i = (if i < 0 then CHR ''-'' # string_of_nat (nat (- i)) else string_of_nat (nat i))"

subsection \<open>Breakpoint reconciliation\<close>

definition nullthrowsError :: error where
  "nullthrowsError = Error ''Got unexpected null or undefined''"

definition collection :: "(BreakpointCollection \<Rightarrow> error + BreakpointCollection) \<Rightarrow> Debugger \<Rightarrow> unit outcome \<times> Debugger" where
  "collection f d =
     (case f (breakpoints d) of
        Inl e \<Rightarrow> (Throw e, d)
      | Inr c \<Rightarrow> (Ok (), d\<lparr>breakpoints := c\<rparr>))"

definition couldNotSet :: string where
  "couldNotSet = ''Could not set this breakpoint. The module may not have been loaded yet.''"

text \<open>
  \<^verbatim>\<open>_updateBreakpoint(local, remote)\<close>. The collection is updated through the index of
  \<open>local\<close>; the message is assigned to \<open>remote\<close>, the adapter's object, which is returned
  here as the function's value.
\<close>

definition updateBreakpoint :: "Breakpoint \<Rightarrow> RemoteBreakpoint \<Rightarrow> Debugger \<Rightarrow> RemoteBreakpoint outcome \<times> Debugger" where
  "updateBreakpoint local remote =
     bind
       (case remote_id remote of
          Some i \<Rightarrow>
            bind (collection (setBreakpointId (bp_index local) i))
              (\<lambda>_. case remote_verified remote of
                      Some verified \<Rightarrow> collection (setBreakpointVerified (bp_index local) verified)
                    | None \<Rightarrow> Pair (Ok ()))
        | None \<Rightarrow> collection (setBreakpointVerified (bp_index local) True))
       (\<lambda>_. bind
          (case (bp_func local, remote_source remote) of
             (Some _, Some source) \<Rightarrow>
               (case (source_path source, remote_line remote) of
                  (Some p, Some l) \<Rightarrow> collection (setPathAndFile (bp_index local) p l)
                | _ \<Rightarrow> Pair (Ok ()))
           | _ \<Rightarrow> Pair (Ok ()))
          (\<lambda>_. Pair (Ok
             (if remote_verified remote \<noteq> Some True \<and>
                 (remote_message remote = None \<or> remote_message remote = Some [])
              then remote\<lparr>remote_message := Some couldNotSet\<rparr>
              else remote))))"

text \<open>\<^verbatim>\<open>locals.map((_, i) => [_, remotes[i]])\<close>: a position the adapter did not answer
  is paired with \<^verbatim>\<open>undefined\<close>.\<close>

fun paired :: "'a list \<Rightarrow> 'b list \<Rightarrow> ('a \<times> 'b option) list" where
  "paired [] rs = []"
| "paired (l # ls) [] = (l, None) # paired ls []"
| "paired (l # ls) (r # rs) = (l, Some r) # paired ls rs"

text \<open>The loop over the pairs; reading \<^verbatim>\<open>remote.id\<close> of \<^verbatim>\<open>undefined\<close> throws.\<close>

fun updateBreakpoints :: "(Breakpoint \<times> RemoteBreakpoint option) list \<Rightarrow> Debugger \<Rightarrow> (Breakpoint \<times> RemoteBreakpoint) list outcome \<times> Debugger" where
  "updateBreakpoints [] d = (Ok [], d)"
| "updateBreakpoints ((local, None) # ps) d =
     (Throw (TypeError ''Cannot read property id of undefined''), d)"
| "updateBreakpoints ((local, Some remote) # ps) d =
     bind (updateBreakpoint local remote)
       (\<lambda>remote'. bind (updateBreakpoints ps) (\<lambda>rest. Pair (Ok ((local, remote') # rest)))) d"

definition setSourceBreakpointsForPath :: "Environment \<Rightarrow> string \<Rightarrow> nat option \<Rightarrow> Debugger \<Rightarrow> RemoteBreakpoint option outcome \<times> Debugger" where
  "setSourceBreakpointsForPath env p indexOfInterest d =
     (let localBreakpoints = getAllEnabledBreakpointsForSource (breakpoints d) p;
          lines = map bp_line localBreakpoints
      in bind (send (ReqSetBreakpoints p lines) (setBreakpoints_response env p lines))
           (\<lambda>adapterBreakpoints.
              bind (updateBreakpoints (paired localBreakpoints adapterBreakpoints))
                (\<lambda>pairs. Pair (Ok (map_option snd
                   (find (\<lambda>pr. Some (bp_index (fst pr)) = indexOfInterest) pairs))))) d)"

definition setFunctionBreakpoints :: "Environment \<Rightarrow> nat \<Rightarrow> Debugger \<Rightarrow> RemoteBreakpoint option outcome \<times> Debugger" where
  "setFunctionBreakpoints env indexOfInterest d =
     (let funcBreakpoints = getAllEnabledFunctionBreakpoints (breakpoints d);
          names = map bp_func funcBreakpoints
      in bind (send (ReqSetFunctionBreakpoints names) (setFunctionBreakpoints_response env names))
           (\<lambda>adapterBreakpoints.
              bind (updateBreakpoints (paired funcBreakpoints adapterBreakpoints))
                (\<lambda>pairs. Pair (Ok (map_option snd
                   (find (\<lambda>pr. bp_index (fst pr) = indexOfInterest) pairs))))) d)"

text \<open>
  \<^verbatim>\<open>_resetAllFunctionBreakpoints\<close> in two halves: what it puts on the wire when it is
  called, and what it does with the answer. Called alone, one follows the other.
\<close>

definition functionBreakpointsSkipped :: "Debugger \<Rightarrow> bool" where
  "functionBreakpointsSkipped d =
     (\<not> supportsFunctionBreakpoints (capabilities d) \<or>
      getAllEnabledFunctionBreakpoints (breakpoints d) = [])"

definition resetAllFunctionBreakpoints_settle :: "Environment \<Rightarrow> Breakpoint list \<Rightarrow> Debugger \<Rightarrow> unit outcome \<times> Debugger" where
  "resetAllFunctionBreakpoints_settle env funcBreakpoints =
     bind (lift (setFunctionBreakpoints_response env (map bp_func funcBreakpoints)))
       (\<lambda>funcBreakpointsOut.
          bind (updateBreakpoints (paired funcBreakpoints funcBreakpointsOut)) (\<lambda>_. Pair (Ok ())))"

definition resetAllFunctionBreakpoints :: "Environment \<Rightarrow> Debugger \<Rightarrow> unit outcome \<times> Debugger" where
  "resetAllFunctionBreakpoints env d =
     (case ensureDebugSession False d of
        Inl e \<Rightarrow> (Throw e, d)
      | Inr _ \<Rightarrow>
          (if functionBreakpointsSkipped d then (Ok (), d)
           else (let funcBreakpoints = getAllEnabledFunctionBreakpoints (breakpoints d)
                 in resetAllFunctionBreakpoints_settle env funcBreakpoints
                      (d\<lparr>effects := effects d @
                          [Request (ReqSetFunctionBreakpoints (map bp_func funcBreakpoints))]\<rparr>))))"

text \<open>
  \<^verbatim>\<open>Promise.all\<close> over calls that are already under way: every one runs to its end,
  the first rejection (in the order of the array) is the result.
\<close>

fun settleAll :: "('s \<Rightarrow> unit outcome \<times> 's) list \<Rightarrow> 's \<Rightarrow> unit outcome \<times> 's" where
  "settleAll [] s = (Ok (), s)"
| "settleAll (m # ms) s =
     (case m s of
        (Ok _, s') \<Rightarrow> settleAll ms s'
      | (Throw e, s') \<Rightarrow>
          (case settleAll ms s' of
             (Exit n, s'') \<Rightarrow> (Exit n, s'')
           | (_, s'') \<Rightarrow> (Throw e, s''))
      | (Exit n, s') \<Rightarrow> (Exit n, s'))"

definition sourceBreakpointSet_settle :: "Environment \<Rightarrow> string \<times> Breakpoint list \<Rightarrow> Debugger \<Rightarrow> unit outcome \<times> Debugger" where
  "sourceBreakpointSet_settle env entry =
     bind (lift (setBreakpoints_response env (fst entry) (map bp_line (snd entry))))
       (\<lambda>breakpointsOut.
          bind (updateBreakpoints (paired (snd entry) breakpointsOut)) (\<lambda>_. Pair (Ok ())))"

text \<open>
  \<^verbatim>\<open>_resetAllBreakpoints\<close>: one \<^verbatim>\<open>setBreakpoints\<close> per path and then the function
  breakpoints are requested at once; the answers are worked off afterwards.
\<close>

definition resetAllBreakpoints :: "Environment \<Rightarrow> Debugger \<Rightarrow> unit outcome \<times> Debugger" where
  "resetAllBreakpoints env d =
     (case ensureDebugSession False d of
        Inl e \<Rightarrow> (Throw e, d)
      | Inr _ \<Rightarrow>
          (let sourceBreakpoints = getAllEnabledBreakpointsByPath (breakpoints d);
               funcBreakpoints = getAllEnabledFunctionBreakpoints (breakpoints d);
               requests =
                 map (\<lambda>g. Request (ReqSetBreakpoints (fst g) (map bp_line (snd g)))) sourceBreakpoints @
                 (if functionBreakpointsSkipped d then []
                  else [Request (ReqSetFunctionBreakpoints (map bp_func funcBreakpoints))])
           in settleAll
                (map (sourceBreakpointSet_settle env) sourceBreakpoints @
                 (if functionBreakpointsSkipped d then []
                  else [resetAllFunctionBreakpoints_settle env funcBreakpoints]))
                (d\<lparr>effects := effects d @ requests\<rparr>)))"

subsection \<open>Session lifecycle\<close>

definition closeSession :: "Environment \<Rightarrow> Debugger \<Rightarrow> unit outcome \<times> Debugger" where
  "closeSession env d =
     (if \<not> debugSession d then (Ok (), d)
      else bind (send ReqDisconnect (disconnect_response env))
             (\<lambda>_ d'. (Ok (), d'\<lparr>threads := newThreadCollection, debugSession := False,
                                 activeThread := None, sourceFiles := flush (sourceFiles d')\<rparr>)) d)"

text \<open>
  \<^verbatim>\<open>createSession\<close>. With no body in the response, reading
  \<^verbatim>\<open>extraBody.supportsReadyForEvaluationsEvent\<close> throws, after the flag was set.
\<close>

definition createSession :: "Environment \<Rightarrow> ParsedVSAdapter \<Rightarrow> Debugger \<Rightarrow> unit outcome \<times> Debugger" where
  "createSession env a d =
     bind (send ReqInitialize (initialize_response env))
       (\<lambda>body d'.
          (case body of
             None \<Rightarrow>
               (Throw (TypeError ''Cannot read property supportsReadyForEvaluationsEvent of undefined''),
                d'\<lparr>capabilities := noCapabilities, readyForEvaluations := True\<rparr>)
           | Some caps \<Rightarrow>
               (if supportsReadyForEvaluationsEvent caps
                then (Ok (), d'\<lparr>capabilities := caps, readyForEvaluations := False\<rparr>)
                else (Ok (), d'\<lparr>capabilities := caps, readyForEvaluations := True\<rparr>))))
       ((stopInput d)\<lparr>threads := newThreadCollection, debugSession := True\<rparr>)"

definition pauseAfterAttach :: "Environment \<Rightarrow> Debugger \<Rightarrow> unit outcome \<times> Debugger" where
  "pauseAfterAttach env d =
     (if configured d \<and> attached d then
        (case ensureDebugSession True d of
           Inl e \<Rightarrow> (Throw e, d)
         | Inr _ \<Rightarrow>
             (case adapter d of
                None \<Rightarrow> (Throw nullthrowsError, d)
              | Some a \<Rightarrow>
                  (case (case asyncStopThread a of
                           Some t \<Rightarrow> Some t
                         | None \<Rightarrow> (case allThreads (threads d) of
                                       [] \<Rightarrow> None
                                     | t # _ \<Rightarrow> Some (thread_id t))) of
                     None \<Rightarrow> (Ok (), stopInput d)
                   | Some threadId \<Rightarrow> send (ReqPause threadId) (pause_response env threadId) d)))
      else (Ok (), d))"

definition cacheThreads :: "Environment \<Rightarrow> Debugger \<Rightarrow> unit outcome \<times> Debugger" where
  "cacheThreads env d =
     (if \<not> debugSession d then (Throw (AssertionError ''_cacheThreads called without session''), d)
      else bind (send ReqThreads (threads_response env))
             (\<lambda>body d'.
                (Ok (), d'\<lparr>threads :=
                   updateThreads (map (\<lambda>t. newThread (fst t) (snd t))
                                    (case body of None \<Rightarrow> [] | Some ts \<Rightarrow> ts))
                     (threads d')\<rparr>)) d)"

definition failedToDebugTarget :: "error \<Rightarrow> Debugger \<Rightarrow> 'a outcome \<times> Debugger" where
  "failedToDebugTarget err d =
     (Exit 0, stderr_write (''Failed to debug target: '' @ message err @ [CHR 0x0D, CHR 0x0A]) d)"

definition configurationDone :: "Environment \<Rightarrow> Debugger \<Rightarrow> unit outcome \<times> Debugger" where
  "configurationDone env d =
     (case ensureDebugSession True d of
        Inl e \<Rightarrow> (Throw e, d)
      | Inr _ \<Rightarrow>
          bind (resetAllBreakpoints env)
            (\<lambda>_. bind (send ReqSetExceptionBreakpoints (setExceptionBreakpoints_response env))
              (\<lambda>_. bind
                 (\<lambda>d'. if supportsConfigurationDoneRequest (capabilities d')
                        then try_catch (send ReqConfigurationDone (configurationDone_response env))
                               failedToDebugTarget d'
                        else (Ok (), d'))
                 (\<lambda>_. bind (cacheThreads env)
                    (\<lambda>_ d'. if attachMode d'
                             then pauseAfterAttach env (d'\<lparr>configured := True\<rparr>)
                             else (Ok (), stopInput d')))))
            (d\<lparr>state := RUNNING\<rparr>))"

text \<open>
  The \<^verbatim>\<open>try\<close> block of \<^verbatim>\<open>relaunch\<close>. The \<^verbatim>\<open>invariant\<close> on
  \<^verbatim>\<open>adapter.action\<close> holds by the type \<open>action\<close>. The block's value tells whether it left through
  \<^verbatim>\<open>return this._pauseAfterAttach()\<close>: that promise is returned without
  \<^verbatim>\<open>await\<close>, so what it rejects with does not reach the \<^verbatim>\<open>catch\<close>.
\<close>

definition relaunch_try :: "Environment \<Rightarrow> ParsedVSAdapter \<Rightarrow> Debugger \<Rightarrow> bool outcome \<times> Debugger" where
  "relaunch_try env a d =
     bind (closeSession env)
       (\<lambda>_. bind (createSession env a)
          (\<lambda>_ d'.
             (let d2 = d'\<lparr>attachMode := (adapter_action a = attach_action)\<rparr>
              in case ensureDebugSession True d2 of
                   Inl e \<Rightarrow> (Throw e, d2)
                 | Inr _ \<Rightarrow>
                     (case adapter d2 of
                        None \<Rightarrow> (Throw nullthrowsError, d2)
                      | Some this_adapter \<Rightarrow>
                          (if attachMode d2 then
                             bind (send (ReqAttach (transformAttachArguments this_adapter (attachArgs a)))
                                     (attach_response env (transformAttachArguments this_adapter (attachArgs a))))
                               (\<lambda>_ d3. (Ok True, d3\<lparr>attached := True\<rparr>)) d2
                           else
                             bind (send (ReqLaunch (transformLaunchArguments this_adapter (launchArgs a)))
                                     (launch_response env (transformLaunchArguments this_adapter (launchArgs a))))
                               (\<lambda>_ d3. (Ok False, d3)) d2)))))
       (d\<lparr>state := INITIALIZING, configured := False, attached := False\<rparr>)"

definition relaunch :: "Environment \<Rightarrow> Debugger \<Rightarrow> unit outcome \<times> Debugger" where
  "relaunch env d =
     (case adapter d of
        None \<Rightarrow> (Throw (Error ''There is nothing to relaunch.''), d)
      | Some a \<Rightarrow>
          bind (try_catch (relaunch_try env a) failedToDebugTarget)
            (\<lambda>attaching d'. if attaching then pauseAfterAttach env d' else (Ok (), d')) d)"

definition launch :: "Environment \<Rightarrow> ParsedVSAdapter \<Rightarrow> Debugger \<Rightarrow> unit outcome \<times> Debugger" where
  "launch env a d = relaunch env (d\<lparr>adapter := Some a, breakpoints := newBreakpointCollection\<rparr>)"

definition startConfigurationInput :: "Debugger \<Rightarrow> Debugger" where
  "startConfigurationInput d =
     (if readyForEvaluations d \<and> state d = CONFIGURING then startInput d else d)"

definition onInitialized :: "Environment \<Rightarrow> Debugger \<Rightarrow> unit outcome \<times> Debugger" where
  "onInitialized env d =
     (case adapter d of
        None \<Rightarrow> (Throw (AssertionError ''adapter != null''), d)
      | Some _ \<Rightarrow>
          (if attachMode d then configurationDone env d
           else (Ok (), startConfigurationInput (d\<lparr>state := CONFIGURING\<rparr>))))"

definition run :: "Environment \<Rightarrow> Debugger \<Rightarrow> unit outcome \<times> Debugger" where
  "run env d =
     (if attachMode d then (Throw (Error ''Cannot run an attached process; already attached.''), d)
      else if state d = STOPPED then not_awaited (relaunch env) (d\<lparr>stoppedAtBreakpointId := None\<rparr>)
      else if state d \<noteq> CONFIGURING
           then (Throw (Error ''There is nothing to run.''), d\<lparr>stoppedAtBreakpointId := None\<rparr>)
      else configurationDone env (d\<lparr>stoppedAtBreakpointId := None\<rparr>))"

subsection \<open>Threads, frames, stepping, evaluation\<close>

definition getActiveThread :: "Debugger \<Rightarrow> error + Thread" where
  "getActiveThread d =
     (case ensureDebugSession False d of
        Inl e \<Rightarrow> Inl e
      | Inr _ \<Rightarrow>
          (case focusThread (threads d) of
             None \<Rightarrow> Inl nullthrowsError
           | Some t \<Rightarrow> Inr t))"

definition getStackTrace :: "Environment \<Rightarrow> int \<Rightarrow> int \<Rightarrow> Debugger \<Rightarrow> StackFrame list outcome \<times> Debugger" where
  "getStackTrace env thread levels d =
     (case ensureDebugSession False d of
        Inl e \<Rightarrow> (Throw e, d)
      | Inr _ \<Rightarrow> send (ReqStackTrace thread levels) (stackTrace_response env thread levels) d)"

text \<open>\<^verbatim>\<open>frames[i]\<close>: \<^verbatim>\<open>undefined\<close> past the end of the array.\<close>

definition element :: "'a list \<Rightarrow> nat \<Rightarrow> 'a option" where
  "element xs i = (if i < length xs then Some (xs ! i) else None)"

definition setSelectedStackFrame :: "Environment \<Rightarrow> Thread \<Rightarrow> nat \<Rightarrow> Debugger \<Rightarrow> unit outcome \<times> Debugger" where
  "setSelectedStackFrame env thread frameIndex =
     bind (getStackTrace env (thread_id thread) (int frameIndex + 1))
       (\<lambda>frames d.
          (case element frames frameIndex of
             None \<Rightarrow>
               (Throw (Error (''There are only '' @ string_of_nat (length frames) @
                  '' frames in the thread'' @ [CHR 0x27] @ ''s stack trace.'')), d)
           | Some _ \<Rightarrow>
               (Ok (), d\<lparr>threads :=
                  updateThread (thread_id thread) (\<lambda>t. t\<lparr>selectedStackFrame := frameIndex\<rparr>)
                    (threads d)\<rparr>)))"

definition getCurrentStackFrame :: "Environment \<Rightarrow> Debugger \<Rightarrow> StackFrame option outcome \<times> Debugger" where
  "getCurrentStackFrame env d =
     (case getActiveThread d of
        Inl e \<Rightarrow> (Throw e, d)
      | Inr thread \<Rightarrow>
          bind (getStackTrace env (thread_id thread) (int (selectedStackFrame thread) + 1))
            (\<lambda>frames. Pair (Ok (element frames (selectedStackFrame thread)))) d)"

definition stepIn :: "Environment \<Rightarrow> Debugger \<Rightarrow> unit outcome \<times> Debugger" where
  "stepIn env d =
     (case getActiveThread d of
        Inl e \<Rightarrow> (Throw e, d)
      | Inr thread \<Rightarrow> send (ReqStepIn (thread_id thread)) (stepIn_response env (thread_id thread)) d)"

definition stepOver :: "Environment \<Rightarrow> Debugger \<Rightarrow> unit outcome \<times> Debugger" where
  "stepOver env d =
     (case getActiveThread d of
        Inl e \<Rightarrow> (Throw e, d)
      | Inr thread \<Rightarrow> send (ReqNext (thread_id thread)) (next_response env (thread_id thread)) d)"

definition stateName :: "SessionState \<Rightarrow> string" where
  "stateName s =
     (case s of
        INITIALIZING \<Rightarrow> ''INITIALIZING''
      | CONFIGURING \<Rightarrow> ''CONFIGURING''
      | RUNNING \<Rightarrow> ''RUNNING''
      | STOPPED \<Rightarrow> ''STOPPED''
      | TERMINATED \<Rightarrow> ''TERMINATED'')"

text \<open>
  The \<^verbatim>\<open>try\<close> block of \<^verbatim>\<open>continue\<close>. Its value tells whether it left through
  \<^verbatim>\<open>return this._configurationDone()\<close>, a promise returned without \<^verbatim>\<open>await\<close>.
\<close>

definition continue_try :: "Environment \<Rightarrow> Debugger \<Rightarrow> bool outcome \<times> Debugger" where
  "continue_try env d =
     (case ensureDebugSession True (stopInput d) of
        Inl e \<Rightarrow> (Throw e, stopInput d)
      | Inr _ \<Rightarrow>
          (let d1 = (stopInput d)\<lparr>stoppedAtBreakpointId := None\<rparr>
           in if state d1 = CONFIGURING then
                (if attachMode d1 then (Ok True, d1)
                 else (Throw (Error ''There is not yet a running process to continue.''), d1))
              else if state d1 = STOPPED then
                (case getActiveThread d1 of
                   Inl e \<Rightarrow> (Throw e, d1)
                 | Inr thread \<Rightarrow>
                     bind (send (ReqContinue (thread_id thread)) (continue_response env (thread_id thread)))
                       (\<lambda>_. Pair (Ok False)) d1)
              else if state d1 = TERMINATED then
                (Throw (Error ''Cannot continue; process is terminated.''), d1)
              else (Throw (Error (''Continue called from unexpected state '' @ stateName (state d1))), d1)))"

definition continue :: "Environment \<Rightarrow> Debugger \<Rightarrow> unit outcome \<times> Debugger" where
  "continue env =
     bind (try_catch (continue_try env) (\<lambda>error d. (Throw error, startInput d)))
       (\<lambda>configuring d. if configuring then configurationDone env d else (Ok (), d))"

definition evaluateExpression :: "Environment \<Rightarrow> string \<Rightarrow> Debugger \<Rightarrow> string outcome \<times> Debugger" where
  "evaluateExpression env expression d =
     (case ensureDebugSession True d of
        Inl e \<Rightarrow> (Throw e, d)
      | Inr _ \<Rightarrow>
          (if state d = RUNNING then
             bind (getCurrentStackFrame env)
               (\<lambda>frame.
                  (case frame of
                     Some f \<Rightarrow>
                       send (ReqEvaluate expression ''repl'' (Some (frame_id f)))
                         (evaluate_response env expression ''repl'' (Some (frame_id f)))
                   | None \<Rightarrow>
                       send (ReqEvaluate expression ''repl'' None)
                         (evaluate_response env expression ''repl'' None))) d
           else send (ReqEvaluate expression ''repl'' None)
                  (evaluate_response env expression ''repl'' None) d))"

definition breakInto :: "Environment \<Rightarrow> Debugger \<Rightarrow> unit outcome \<times> Debugger" where
  "breakInto env d =
     (case adapter d of
        None \<Rightarrow> (Throw nullthrowsError, d)
      | Some a \<Rightarrow>
          (case (case focusThread (threads d) of
                   Some t \<Rightarrow> Some (thread_id t)
                 | None \<Rightarrow>
                     (case asyncStopThread a of
                        Some t \<Rightarrow> Some t
                      | None \<Rightarrow> (case allThreads (threads d) of
                                    [] \<Rightarrow> None
                                  | t # _ \<Rightarrow> Some (thread_id t)))) of
             None \<Rightarrow> (Ok (), d)
           | Some threadId \<Rightarrow>
               (case ensureDebugSession False d of
                  Inl e \<Rightarrow> (Throw e, d)
                | Inr _ \<Rightarrow> not_awaited (send (ReqPause threadId) (pause_response env threadId)) d)))"

subsection \<open>Breakpoint commands\<close>

definition setSourceBreakpoint :: "Environment \<Rightarrow> string \<Rightarrow> int \<Rightarrow> Debugger \<Rightarrow> (nat \<times> string option) outcome \<times> Debugger" where
  "setSourceBreakpoint env p l d =
     (case ensureDebugSession True d of
        Inl e \<Rightarrow> (Throw e, d)
      | Inr _ \<Rightarrow>
          (case addSourceBreakpoint p l (breakpoints d) of
             (index, c) \<Rightarrow>
               (if state d \<noteq> CONFIGURING then
                  bind (setSourceBreakpointsForPath env p (Some index))
                    (\<lambda>breakpoint.
                       Pair (Ok (index, case breakpoint of
                                          None \<Rightarrow> None
                                        | Some b \<Rightarrow> remote_message b)))
                    (d\<lparr>breakpoints := c\<rparr>)
                else (Ok (index, Some ''Breakpoint pending until program starts.''),
                      d\<lparr>breakpoints := c\<rparr>))))"

definition setFunctionBreakpoint :: "Environment \<Rightarrow> string \<Rightarrow> Debugger \<Rightarrow> (nat \<times> string option) outcome \<times> Debugger" where
  "setFunctionBreakpoint env func d =
     (if \<not> supportsFunctionBreakpoints (capabilities d) then
        (case adapter d of
           None \<Rightarrow> (Throw nullthrowsError, d)
         | Some a \<Rightarrow>
             (Throw (Error (''The '' @ adapter_type a @
                '' debugger does not support function breakpoints.'')), d))
      else
        (case ensureDebugSession True d of
           Inl e \<Rightarrow> (Throw e, d)
         | Inr _ \<Rightarrow>
             (case addFunctionBreakpoint func (breakpoints d) of
                (index, c) \<Rightarrow>
                  (if state d \<noteq> CONFIGURING then
                     bind (setFunctionBreakpoints env index)
                       (\<lambda>breakpoint.
                          Pair (Ok (index, case breakpoint of
                                             None \<Rightarrow> None
                                           | Some b \<Rightarrow> remote_message b)))
                       (d\<lparr>breakpoints := c\<rparr>)
                   else (Ok (index, Some ''Breakpoint pending until program starts.''),
                         d\<lparr>breakpoints := c\<rparr>)))))"

definition setBreakpointEnabled :: "Environment \<Rightarrow> nat \<Rightarrow> bool \<Rightarrow> Debugger \<Rightarrow> unit outcome \<times> Debugger" where
  "setBreakpointEnabled env index enabled d =
     (case ensureDebugSession False d of
        Inl e \<Rightarrow> (Throw e, d)
      | Inr _ \<Rightarrow>
          (case getBreakpointByIndex (breakpoints d) index of
             Inl e \<Rightarrow> (Throw e, d)
           | Inr breakpoint \<Rightarrow>
               (if bp_enabled breakpoint = enabled then (Ok (), d)
                else
                  (case bp_path breakpoint of
                     Some p \<Rightarrow>
                       try_catch
                         (bind (setSourceBreakpointsForPath env p (Some index)) (\<lambda>_. Pair (Ok ())))
                         (\<lambda>error d'.
                            (Throw error,
                             d'\<lparr>breakpoints := setEnabled index (\<not> enabled) (breakpoints d')\<rparr>))
                         (d\<lparr>breakpoints := setEnabled index enabled (breakpoints d)\<rparr>)
                   | None \<Rightarrow>
                       resetAllFunctionBreakpoints env
                         (d\<lparr>breakpoints := setEnabled index enabled (breakpoints d)\<rparr>)))))"

text \<open>\<^verbatim>\<open>breakpoint.setEnabled(!breakpoint.enabled)\<close>: the flag is read from the
  breakpoint as it is at that moment.\<close>

definition toggleEnabled :: "nat \<Rightarrow> BreakpointCollection \<Rightarrow> BreakpointCollection" where
  "toggleEnabled i c =
     c\<lparr>allBreakpoints :=
         map (\<lambda>b. if bp_index b = i then b\<lparr>bp_enabled := \<not> bp_enabled b\<rparr> else b) (allBreakpoints c)\<rparr>"

definition toggleBreakpoint :: "Environment \<Rightarrow> nat \<Rightarrow> Debugger \<Rightarrow> unit outcome \<times> Debugger" where
  "toggleBreakpoint env index d =
     (case ensureDebugSession False d of
        Inl e \<Rightarrow> (Throw e, d)
      | Inr _ \<Rightarrow>
          (case getBreakpointByIndex (breakpoints d) index of
             Inl e \<Rightarrow> (Throw e, d)
           | Inr breakpoint \<Rightarrow>
               (case bp_path breakpoint of
                  Some p \<Rightarrow>
                    try_catch
                      (bind (setSourceBreakpointsForPath env p (Some index)) (\<lambda>_. Pair (Ok ())))
                      (\<lambda>error d'.
                         (Throw error, d'\<lparr>breakpoints := toggleEnabled index (breakpoints d')\<rparr>))
                      (d\<lparr>breakpoints := toggleEnabled index (breakpoints d)\<rparr>)
                | None \<Rightarrow>
                    resetAllFunctionBreakpoints env
                      (d\<lparr>breakpoints := toggleEnabled index (breakpoints d)\<rparr>))))"

definition setAllBreakpointsEnabled :: "Environment \<Rightarrow> bool \<Rightarrow> Debugger \<Rightarrow> unit outcome \<times> Debugger" where
  "setAllBreakpointsEnabled env enabled d =
     resetAllBreakpoints env
       (d\<lparr>breakpoints := (breakpoints d)\<lparr>allBreakpoints :=
            map (\<lambda>b. b\<lparr>bp_enabled := enabled\<rparr>) (allBreakpoints (breakpoints d))\<rparr>\<rparr>)"

definition toggleAllBreakpoints :: "Environment \<Rightarrow> Debugger \<Rightarrow> unit outcome \<times> Debugger" where
  "toggleAllBreakpoints env d =
     resetAllBreakpoints env
       (d\<lparr>breakpoints := (breakpoints d)\<lparr>allBreakpoints :=
            map (\<lambda>b. b\<lparr>bp_enabled := \<not> bp_enabled b\<rparr>) (allBreakpoints (breakpoints d))\<rparr>\<rparr>)"

definition deleteAllBreakpoints :: "Environment \<Rightarrow> Debugger \<Rightarrow> unit outcome \<times> Debugger" where
  "deleteAllBreakpoints env d =
     (case ensureDebugSession False d of
        Inl e \<Rightarrow> (Throw e, d)
      | Inr _ \<Rightarrow>
          (let paths = getAllBreakpointPaths (breakpoints d)
           in bind (settleAll (map (\<lambda>p. bind (lift (setBreakpoints_response env p [])) (\<lambda>_. Pair (Ok ()))) paths))
                (\<lambda>_. bind (send (ReqSetFunctionBreakpoints []) (setFunctionBreakpoints_response env []))
                   (\<lambda>_ d'. (Ok (), d'\<lparr>breakpoints := deleteAllBreakpoints_collection (breakpoints d')\<rparr>)))
                (d\<lparr>effects := effects d @ map (\<lambda>p. Request (ReqSetBreakpoints p [])) paths\<rparr>)))"

definition deleteBreakpoint :: "Environment \<Rightarrow> nat \<Rightarrow> Debugger \<Rightarrow> unit outcome \<times> Debugger" where
  "deleteBreakpoint env index d =
     (case ensureDebugSession False d of
        Inl e \<Rightarrow> (Throw e, d)
      | Inr _ \<Rightarrow>
          (case getBreakpointByIndex (breakpoints d) index of
             Inl e \<Rightarrow> (Throw e, d)
           | Inr breakpoint \<Rightarrow>
               bind (collection (deleteBreakpoint_collection index))
                 (\<lambda>_ d'.
                    (case bp_path breakpoint of
                       Some p \<Rightarrow>
                         bind (send (ReqSetBreakpoints p
                                       (map bp_line (getAllEnabledBreakpointsForSource (breakpoints d') p)))
                                 (setBreakpoints_response env p
                                    (map bp_line (getAllEnabledBreakpointsForSource (breakpoints d') p))))
                           (\<lambda>_. Pair (Ok ())) d'
                     | None \<Rightarrow> (Ok (), d'))) d))"

subsection \<open>Events from the adapter\<close>

record OutputEvent =
  output_category :: "string option"
  output_output :: "string option"

record ContinuedEvent =
  continued_threadId :: "int option"
  allThreadsContinued :: "bool option"

record StoppedEvent =
  stopped_description :: "string option"
  stopped_threadId :: "int option"
  allThreadsStopped :: "bool option"
  stopped_breakpointId :: "int option"

record ThreadEvent =
  thread_reason :: string
  thread_threadId :: int

record BreakpointEvent =
  breakpoint_reason :: string
  breakpoint_id :: "int option"
  breakpoint_verified :: bool

definition onOutput :: "OutputEvent \<Rightarrow> Debugger \<Rightarrow> Debugger" where
  "onOutput event d =
     (case output_category event of
        None \<Rightarrow> d
      | Some category \<Rightarrow>
          (if category \<in> set (muteOutputCategories d) then d
           else output_text (case output_output event of None \<Rightarrow> [] | Some t \<Rightarrow> t) d))"

definition onContinued :: "ContinuedEvent \<Rightarrow> Debugger \<Rightarrow> Debugger" where
  "onContinued event d =
     (let d1 =
            (if allThreadsContinued event = Some True
             then d\<lparr>threads := markAllThreadsRunning (threads d)\<rparr>
             else (case continued_threadId event of
                     Some threadId \<Rightarrow> d\<lparr>threads := markThreadRunning threadId (threads d)\<rparr>
                   | None \<Rightarrow> d))
      in if allThreadsRunning (threads d1) then stopInput d1 else d1)"

definition getTopOfStackSourceInfo :: "Environment \<Rightarrow> int \<Rightarrow> Debugger \<Rightarrow> (string \<times> string \<times> StackFrame) option outcome \<times> Debugger" where
  "getTopOfStackSourceInfo env threadId =
     bind (getStackTrace env threadId 1)
       (\<lambda>frames.
          (case frames of
             [] \<Rightarrow> Pair (Ok None)
           | frame # _ \<Rightarrow>
               (case frame_source frame of
                  None \<Rightarrow> Pair (Ok None)
                | Some source \<Rightarrow>
                    bind (getSourceLines env source (frame_line frame) 1)
                      (\<lambda>lines.
                         (case source_path source of
                            Some p \<Rightarrow>
                              Pair (Ok (Some (case lines of [] \<Rightarrow> [] | l # _ \<Rightarrow> l, baseName env p, frame)))
                          | None \<Rightarrow>
                              (case source_name source of
                                 Some n \<Rightarrow>
                                   Pair (Ok (Some (case lines of [] \<Rightarrow> [] | l # _ \<Rightarrow> l, n, frame)))
                               | None \<Rightarrow> Pair (Ok None)))))))"

text \<open>The part of \<^verbatim>\<open>_onStopped\<close> that marks the threads of the event stopped.\<close>

definition markStopped :: "StoppedEvent \<Rightarrow> Debugger \<Rightarrow> unit outcome \<times> Debugger" where
  "markStopped event d =
     (if allThreadsStopped event = Some True then
        (Ok (), d\<lparr>threads :=
           (markAllThreadsStopped (threads d))\<lparr>allThreads :=
              map clearSelectedStackFrame (allThreads (markAllThreadsStopped (threads d)))\<rparr>\<rparr>)
      else
        (case stopped_threadId event of
           Some threadId \<Rightarrow>
             (case getThreadById (markThreadStopped threadId (threads d)) threadId of
                None \<Rightarrow> (Throw nullthrowsError, d\<lparr>threads := markThreadStopped threadId (threads d)\<rparr>)
              | Some _ \<Rightarrow>
                  (Ok (), d\<lparr>threads :=
                     updateThread threadId clearSelectedStackFrame
                       (markThreadStopped threadId (threads d))\<rparr>))
         | None \<Rightarrow> (Ok (), outputLine ''stop event with no thread information.'' d)))"

text \<open>The part of \<^verbatim>\<open>_onStopped\<close> that picks the focus thread on a first stop.\<close>

definition focusOnStop :: "StoppedEvent \<Rightarrow> Debugger \<Rightarrow> unit outcome \<times> Debugger" where
  "focusOnStop event d =
     (case stopped_threadId event of
        Some threadId \<Rightarrow>
          (case setFocusThread threadId (threads d) of
             Inl e \<Rightarrow> (Throw e, d)
           | Inr c \<Rightarrow> (Ok (), d\<lparr>threads := c\<rparr>))
      | None \<Rightarrow>
          (case firstStoppedThread (threads d) of
             None \<Rightarrow> (Throw (AssertionError ''firstStopped != null''), d)
           | Some firstStopped \<Rightarrow>
               (case setFocusThread firstStopped (threads d) of
                  Inl e \<Rightarrow> (Throw e, d)
                | Inr c \<Rightarrow> (Ok (), d\<lparr>threads := c\<rparr>))))"

definition printTopOfStack :: "Environment \<Rightarrow> Debugger \<Rightarrow> unit outcome \<times> Debugger" where
  "printTopOfStack env =
     try_catch
       (\<lambda>d. case focusThreadId (threads d) of
               None \<Rightarrow> (Throw nullthrowsError, d)
             | Some focus \<Rightarrow>
                 bind (getTopOfStackSourceInfo env focus)
                   (\<lambda>topOfStack d'.
                      (case topOfStack of
                         None \<Rightarrow> (Ok (), d')
                       | Some (line, name, frame) \<Rightarrow>
                           (Ok (), outputLine (name @ '':'' @ string_of_int (frame_line frame) @
                                                 '' '' @ line) d'))) d)
       (\<lambda>err d. (Ok (), outputLine (''failed to get source at stop point: '' @ message err) d))"

definition onStopped :: "Environment \<Rightarrow> StoppedEvent \<Rightarrow> Debugger \<Rightarrow> unit outcome \<times> Debugger" where
  "onStopped env event d =
     (let firstStop = allThreadsRunning (threads d);
          d1 = d\<lparr>stoppedAtBreakpointId := stopped_breakpointId event\<rparr>;
          d2 = (case stopped_description event of
                  Some description \<Rightarrow>
                    if firstStop then outputLine (''Stopped: '' @ description) d1 else d1
                | None \<Rightarrow> d1)
      in bind (markStopped event)
           (\<lambda>_ d3.
              if firstStop then
                bind (focusOnStop event)
                  (\<lambda>_. bind (printTopOfStack env)
                     (\<lambda>_ d4. (Ok (), startInput (d4\<lparr>state := STOPPED\<rparr>)))) d3
              else (Ok (), d3)) d2)"

definition onThread :: "Environment \<Rightarrow> ThreadEvent \<Rightarrow> Debugger \<Rightarrow> unit outcome \<times> Debugger" where
  "onThread env event d =
     (if thread_reason event = ''started'' then
        not_awaited (cacheThreads env)
          (d\<lparr>threads :=
             addThread (newThread (thread_threadId event)
                          (''thread '' @ string_of_int (thread_threadId event))) (threads d)\<rparr>)
      else if thread_reason event = ''exited'' then
        (Ok (), d\<lparr>threads := removeThread (thread_threadId event) (threads d)\<rparr>)
      else (Ok (), d))"

definition onReadyForEvaluations :: "Debugger \<Rightarrow> Debugger" where
  "onReadyForEvaluations d = startConfigurationInput (d\<lparr>readyForEvaluations := True\<rparr>)"

text \<open>The end shared by the three handlers of a finished target: relaunch when the
  target was launched, leave the process when it was attached to.\<close>

definition relaunchOrExit :: "Environment \<Rightarrow> Debugger \<Rightarrow> unit outcome \<times> Debugger" where
  "relaunchOrExit env d =
     (case adapter d of
        None \<Rightarrow> (Throw (AssertionError ''adapter != null''), d)
      | Some _ \<Rightarrow>
          (if \<not> attachMode d then not_awaited (relaunch env) (startInput d)
           else (Exit 0, d)))"

definition onExitedDebugee :: "Environment \<Rightarrow> int \<Rightarrow> Debugger \<Rightarrow> unit outcome \<times> Debugger" where
  "onExitedDebugee env exitCode d =
     relaunchOrExit env
       (outputLine (''Target exited with status '' @ string_of_int exitCode)
          (d\<lparr>state := TERMINATED\<rparr>))"

definition onTerminatedDebugee :: "Environment \<Rightarrow> Debugger \<Rightarrow> unit outcome \<times> Debugger" where
  "onTerminatedDebugee env d =
     (if state d \<noteq> RUNNING then (Ok (), d)
      else relaunchOrExit env (outputLine ''The target has exited.'' (d\<lparr>state := TERMINATED\<rparr>)))"

definition onAdapterExited :: "Environment \<Rightarrow> Debugger \<Rightarrow> unit outcome \<times> Debugger" where
  "onAdapterExited env d =
     (if state d = INITIALIZING then (Ok (), d)
      else relaunchOrExit env (d\<lparr>state := TERMINATED\<rparr>))"

definition onBreakpointEvent :: "BreakpointEvent \<Rightarrow> Debugger \<Rightarrow> Debugger" where
  "onBreakpointEvent event d =
     (case breakpoint_id event of
        None \<Rightarrow> d
      | Some i \<Rightarrow>
          (if breakpoint_reason event = ''new'' \<or> breakpoint_reason event = ''changed'' then
             (case getBreakpointById (breakpoints d) i of
                Inl _ \<Rightarrow> outputLine ''Failed to verify breakpoint.'' d
              | Inr breakpoint \<Rightarrow>
                  d\<lparr>breakpoints := (breakpoints d)\<lparr>allBreakpoints :=
                       map (\<lambda>b. if bp_index b = bp_index breakpoint
                                 then b\<lparr>bp_verified := breakpoint_verified event\<rparr> else b)
                         (allBreakpoints (breakpoints d))\<rparr>\<rparr>)
           else d))"

subsection \<open>Executions\<close>

text \<open>
  What reaches the debugger from outside: a command of the console (a public method that
  changes something) or an event of the adapter, as \<^verbatim>\<open>_initializeObservers\<close>
  subscribes them. The handlers of \<^verbatim>\<open>initialized\<close> and \<^verbatim>\<open>stopped\<close> are
  \<^verbatim>\<open>async\<close> and nobody awaits them.
\<close>

datatype input =
    Launch ParsedVSAdapter
  | Relaunch
  | Run
  | BreakInto
  | SetSelectedStackFrame Thread nat
  | StepIn
  | StepOver
  | Continue
  | SetSourceBreakpoint string int
  | SetFunctionBreakpoint string
  | GetSourceLines Source int int
  | SetAllBreakpointsEnabled bool
  | SetBreakpointEnabled nat bool
  | ToggleAllBreakpoints
  | ToggleBreakpoint nat
  | DeleteAllBreakpoints
  | DeleteBreakpoint nat
  | EvaluateExpression string
  | InitializedEvent
  | OutputEv OutputEvent
  | ContinuedEv ContinuedEvent
  | StoppedEv StoppedEvent
  | ThreadEv ThreadEvent
  | ExitedEvent int
  | TerminatedEvent
  | AdapterExitedEvent
  | BreakpointEv BreakpointEvent
  | CustomEvent string

definition discard :: "('s \<Rightarrow> 'a outcome \<times> 's) \<Rightarrow> 's \<Rightarrow> unit outcome \<times> 's" where
  "discard m = bind m (\<lambda>_. Pair (Ok ()))"

fun handle :: "Environment \<Rightarrow> input \<Rightarrow> Debugger \<Rightarrow> unit outcome \<times> Debugger" where
  "handle env (Launch a) d = launch env a d"
| "handle env Relaunch d = relaunch env d"
| "handle env Run d = run env d"
| "handle env BreakInto d = breakInto env d"
| "handle env (SetSelectedStackFrame t i) d = setSelectedStackFrame env t i d"
| "handle env StepIn d = stepIn env d"
| "handle env StepOver d = stepOver env d"
| "handle env Continue d = continue env d"
| "handle env (SetSourceBreakpoint p l) d = discard (setSourceBreakpoint env p l) d"
| "handle env (SetFunctionBreakpoint f) d = discard (setFunctionBreakpoint env f) d"
| "handle env (GetSourceLines source start len) d = discard (getSourceLines env source start len) d"
| "handle env (SetAllBreakpointsEnabled e) d = setAllBreakpointsEnabled env e d"
| "handle env (SetBreakpointEnabled i e) d = setBreakpointEnabled env i e d"
| "handle env ToggleAllBreakpoints d = toggleAllBreakpoints env d"
| "handle env (ToggleBreakpoint i) d = toggleBreakpoint env i d"
| "handle env DeleteAllBreakpoints d = deleteAllBreakpoints env d"
| "handle env (DeleteBreakpoint i) d = deleteBreakpoint env i d"
| "handle env (EvaluateExpression e) d = discard (evaluateExpression env e) d"
| "handle env InitializedEvent d = not_awaited (onInitialized env) d"
| "handle env (OutputEv e) d = (Ok (), onOutput e d)"
| "handle env (ContinuedEv e) d = (Ok (), onContinued e d)"
| "handle env (StoppedEv e) d = not_awaited (onStopped env e) d"
| "handle env (ThreadEv e) d = onThread env e d"
| "handle env (ExitedEvent code) d = onExitedDebugee env code d"
| "handle env TerminatedEvent d = onTerminatedDebugee env d"
| "handle env AdapterExitedEvent d = onAdapterExited env d"
| "handle env (BreakpointEv e) d = (Ok (), onBreakpointEvent e d)"
| "handle env (CustomEvent name) d =
     (Ok (), if name = ''readyForEvaluations'' then onReadyForEvaluations d else d)"

text \<open>
  An execution: inputs handled one after the other, each with what the surroundings
  answer at that time. An error thrown to the caller of a command does not stop the
  debugger; an exit of the process does, and its status is the first component.
\<close>

fun execute :: "(Environment \<times> input) list \<Rightarrow> Debugger \<Rightarrow> int option \<times> Debugger" where
  "execute [] d = (None, d)"
| "execute (step # steps) d =
     (case handle (fst step) (snd step) d of
        (Exit n, d') \<Rightarrow> (Some n, d')
      | (_, d') \<Rightarrow> execute steps d')"

subsection \<open>A sample adapter\<close>

definition sampleAdapter :: ParsedVSAdapter where
  "sampleAdapter =
     \<lparr>adapter_type = ''python'', adapter_action = launch_action, launchArgs = ''a.py'',
      attachArgs = ''1234'', transformLaunchArguments = (\<lambda>a. a),
      transformAttachArguments = (\<lambda>a. a), asyncStopThread = None\<rparr>"

definition sampleFrame :: StackFrame where
  "sampleFrame =
     \<lparr>frame_id = 1000, frame_line = 2,
      frame_source = Some \<lparr>sourceReference = None, source_path = Some ''/a.py'', source_name = None\<rparr>\<rparr>"

text \<open>An adapter that accepts every request, reports one thread and one frame, and
  returns every breakpoint with id 42, not verified and without a message.\<close>

definition sampleEnv :: Environment where
  "sampleEnv =
     \<lparr>initialize_response = Inr (Some noCapabilities),
      disconnect_response = Inr (),
      launch_response = (\<lambda>_. Inr ()),
      attach_response = (\<lambda>_. Inr ()),
      setBreakpoints_response =
        (\<lambda>_ ls. Inr (map (\<lambda>_. \<lparr>remote_id = Some 42, remote_verified = Some False,
                                remote_message = None, remote_source = None,
                                remote_line = None\<rparr>) ls)),
      setFunctionBreakpoints_response = (\<lambda>_. Inr []),
      setExceptionBreakpoints_response = Inr (),
      configurationDone_response = Inr (),
      threads_response = Inr (Some [(1, ''main'')]),
      stackTrace_response = (\<lambda>_ _. Inr [sampleFrame]),
      continue_response = (\<lambda>_. Inr ()),
      stepIn_response = (\<lambda>_. Inr ()),
      next_response = (\<lambda>_. Inr ()),
      pause_response = (\<lambda>_. Inr ()),
      evaluate_response = (\<lambda>_ _ _. Inr ''42''),
      source_response = (\<lambda>_. Inr []),
      readFile = (\<lambda>_. Some (''import sys'' @ [CHR 0x0A] @ ''x = 1'' @ [CHR 0x0A] @ ''print(x)'')),
      baseName = (\<lambda>_. ''a.py'')\<rparr>"

definition sampleStop :: StoppedEvent where
  "sampleStop =
     \<lparr>stopped_description = None, stopped_threadId = Some 1, allThreadsStopped = None,
      stopped_breakpointId = None\<rparr>"

text \<open>The debugger after a launch, the adapter's \<^verbatim>\<open>initialized\<close> event and the
  command \<^verbatim>\<open>run\<close>; and after the target then stopped in thread 1.\<close>

definition runningDebugger :: Debugger where
  "runningDebugger =
     snd (execute [(sampleEnv, Launch sampleAdapter), (sampleEnv, InitializedEvent), (sampleEnv, Run)]
            (newDebugger []))"

definition stoppedDebugger :: Debugger where
  "stoppedDebugger = snd (execute [(sampleEnv, StoppedEv sampleStop)] runningDebugger)"

subsection \<open>Notions of the specification\<close>

text \<open>The specification's \<open>lines[i .. j]\<close>: the lines at the 0-based positions from \<open>i\<close>
  up to, not including, \<open>j\<close>.\<close>

definition lines_between :: "'a list \<Rightarrow> nat \<Rightarrow> nat \<Rightarrow> 'a list" where
  "lines_between xs i j = take (j - i) (drop i xs)"

definition samplePathSource :: Source where
  "samplePathSource = \<lparr>sourceReference = None, source_path = Some ''/a.py'', source_name = None\<rparr>"

(*DEFINITIONS-END*)

section \<open>Properties\<close>

subsection \<open>Source listing\<close>

lemma js_slice_in_range:
  assumes "0 \<le> b" "0 \<le> e"
  shows "js_slice xs b e =
           lines_between xs (nat (min b (int (length xs)))) (nat (min e (int (length xs))))"
proof -
  have n: "nat (y - x) = nat y - nat x" if "0 \<le> x" for x y :: int
    using that by linarith
  have "0 \<le> min b (int (length xs))" using assms by simp
  from n [OF this] show ?thesis
    using assms by (simp add: js_slice_def lines_between_def Let_def)
qed

text \<open>
  C8. For a 1-based \<open>start\<close> and a length that is not negative, \<open>getSourceLines\<close> returns
  no line when \<open>start\<close> is past the last line of the source, and otherwise exactly the lines
  at positions \<open>start - 1\<close> up to \<open>min (start - 1 + length) total\<close>; so a length that
  reaches past the end gives every line from \<open>start\<close> on. The lines are those of the
  source's reference or path as the cache serves them.
\<close>

theorem getSourceLines_slice:
  assumes "1 \<le> start" and "0 \<le> len"
  shows "fst (getSourceLines env source start len d) =
           (let lines = fst (sourceLinesOf env source d); total = int (length lines)
            in if start > total then Ok []
               else Ok (lines_between lines (nat (start - 1)) (nat (min (start - 1 + len) total))))"
proof -
  obtain lines d' where L: "sourceLinesOf env source d = (lines, d')"
    by (cases "sourceLinesOf env source d")
  show ?thesis
  proof (cases "start > int (length lines)")
    case True
    then show ?thesis by (simp add: getSourceLines_def L)
  next
    case False
    have "js_slice lines (start - 1) (min (start + len - 1) (int (length lines)))
        = lines_between lines (nat (start - 1)) (nat (min (start - 1 + len) (int (length lines))))"
      using assms False by (simp add: js_slice_in_range min_def add.commute algebra_simps)
    then show ?thesis using False by (simp add: getSourceLines_def L Let_def)
  qed
qed

lemma sample_lines:
  "fst (sourceLinesOf sampleEnv samplePathSource (newDebugger [])) =
     [''import sys'', ''x = 1'', ''print(x)'']"
  by code_simp

theorem getSourceLines_slice_witness:
  "(1::int) \<le> 2 \<and> (0::int) \<le> 5 \<and>
   fst (getSourceLines sampleEnv samplePathSource 2 5 (newDebugger [])) =
     Ok [''x = 1'', ''print(x)'']"
  using getSourceLines_slice [of 2 5 sampleEnv samplePathSource "newDebugger []"]
  by (simp add: sample_lines lines_between_def)

end
